theory Spec2Isabelle
  imports Complex_Main
begin

section \<open>JavaScript values and the operators the plugin uses\<close>

text \<open>
  The plugin (\<^verbatim>\<open>index.js\<close>) compares, with \<^verbatim>\<open><\<close>, \<^verbatim>\<open>>\<close>, \<^verbatim>\<open><=\<close> and \<^verbatim>\<open>===\<close>, values
  that come from the host and from the parsed body of the device's answer, so they are
  dynamically typed. A number is a real, an infinity or NaN: every finite double is a
  real, and comparison and \<^verbatim>\<open>===\<close> of doubles are those of the reals they denote (the
  two zeros are equal). The program does no arithmetic on these numbers. An array is the
  list of its elements and an object the list of its members, as JSON writes them; a
  value holds no function.
\<close>

datatype jsnum = NaN | NegInf | Fin real | PosInf

datatype jsval = JUndefined | JNull | JBool bool | JNum jsnum | JStr string
  | JArr "jsval list" | JObj "(string \<times> jsval) list"

text \<open>
  A failed promise carries an error: the one axios rejects with (its \<^verbatim>\<open>message\<close> is the
  string), or a TypeError (reading a property of \<^verbatim>\<open>null\<close> or \<^verbatim>\<open>undefined\<close>, converting
  an object that has no usable \<^verbatim>\<open>toString\<close>). \<open>DeviceUnreachable\<close> is the failure that
  section 7 of the specification names for exhausted retries, wrapping the message of
  the last transport error; nothing in \<^verbatim>\<open>index.js\<close> constructs one.
\<close>

datatype js_error = AxiosError string | TypeError | DeviceUnreachable string

abbreviation JInt :: "int \<Rightarrow> jsval" where
  "JInt v \<equiv> JNum (Fin (real_of_int v))"

text \<open>
  Conversion of a string to a number is the engine's. Its value on a run of decimal
  digits and on the empty string is written out; its value on every other string
  (signs, fractions, exponents, radix prefixes, \<^verbatim>\<open>Infinity\<close>, surrounding white space,
  text) is the parameter \<open>other\<close>, about which nothing is assumed.
\<close>

definition is_digit :: "char \<Rightarrow> bool" where
  "is_digit c = (c \<in> set ''0123456789'')"

definition digit_value :: "char \<Rightarrow> nat" where
  "digit_value c = length (takeWhile (\<lambda>d. d \<noteq> c) ''0123456789'')"

definition decimal_value :: "string \<Rightarrow> nat" where
  "decimal_value s = foldl (\<lambda>n c. 10 * n + digit_value c) 0 s"

definition StringToNumber :: "(string \<Rightarrow> jsnum) \<Rightarrow> string \<Rightarrow> jsnum" where
  "StringToNumber other s =
     (if s = [] then Fin 0
      else if list_all is_digit s then Fin (real (decimal_value s))
      else other s)"

text \<open>
  A comparison and a template literal convert an array or an object to a string. An
  object without a
  member named \<^verbatim>\<open>toString\<close> becomes \<^verbatim>\<open>[object Object]\<close>; with such a member (never a
  function here) neither \<^verbatim>\<open>valueOf\<close> nor \<^verbatim>\<open>toString\<close> yields a primitive and the
  conversion throws a TypeError. An array becomes its elements' strings joined by
  commas, \<^verbatim>\<open>null\<close> and \<^verbatim>\<open>undefined\<close> giving the empty string, and throws when an
  element does.
\<close>

fun throws :: "jsval \<Rightarrow> bool" where
  "throws (JObj members) = (''toString'' \<in> set (map fst members))"
| "throws (JArr xs) = list_ex throws xs"
| "throws _ = False"

text \<open>
  The number a value converts to when the conversion does not throw. \<open>element\<close> is the
  number that the string of an array element converts to: a number prints as a string
  that converts back to it, \<^verbatim>\<open>true\<close> and \<^verbatim>\<open>[object Object]\<close> are not numeric, and a
  string with a comma (two elements or more) is not numeric either.
\<close>

fun ToNumber :: "(string \<Rightarrow> jsnum) \<Rightarrow> jsval \<Rightarrow> jsnum"
  and element :: "(string \<Rightarrow> jsnum) \<Rightarrow> jsval \<Rightarrow> jsnum" where
  "ToNumber other JUndefined = NaN"
| "ToNumber other JNull = Fin 0"
| "ToNumber other (JBool b) = Fin (if b then 1 else 0)"
| "ToNumber other (JNum n) = n"
| "ToNumber other (JStr s) = StringToNumber other s"
| "ToNumber other (JObj members) = NaN"
| "ToNumber other (JArr []) = Fin 0"
| "ToNumber other (JArr [x]) = element other x"
| "ToNumber other (JArr (x # y # zs)) = NaN"
| "element other JUndefined = Fin 0"
| "element other JNull = Fin 0"
| "element other (JBool b) = NaN"
| "element other (JNum n) = n"
| "element other (JStr s) = StringToNumber other s"
| "element other (JObj members) = NaN"
| "element other (JArr xs) = ToNumber other (JArr xs)"

fun ToBoolean :: "jsval \<Rightarrow> bool" where
  "ToBoolean JUndefined = False"
| "ToBoolean JNull = False"
| "ToBoolean (JBool b) = b"
| "ToBoolean (JNum n) = (n \<noteq> NaN \<and> n \<noteq> Fin 0)"
| "ToBoolean (JStr s) = (s \<noteq> [])"
| "ToBoolean (JArr xs) = True"
| "ToBoolean (JObj members) = True"

fun num_lt :: "jsnum \<Rightarrow> jsnum \<Rightarrow> bool" where
  "num_lt (Fin x) (Fin y) = (x < y)"
| "num_lt NegInf (Fin y) = True"
| "num_lt NegInf PosInf = True"
| "num_lt (Fin x) PosInf = True"
| "num_lt _ _ = False"

text \<open>
  The right operand of every comparison in the program is a number literal, so the
  left operand is converted to a number (which may throw) and the comparison is numeric;
  with NaN on either side every comparison is false. \<^verbatim>\<open>a <= b\<close> is "not \<^verbatim>\<open>b < a\<close>"
  unless NaN is involved. \<^verbatim>\<open>===\<close> with a number never converts and never throws: it
  holds when the left operand is that number.
\<close>

definition js_lt :: "(string \<Rightarrow> jsnum) \<Rightarrow> jsval \<Rightarrow> jsnum \<Rightarrow> js_error + bool" where
  "js_lt other a n =
     (if throws a then Inl TypeError else Inr (num_lt (ToNumber other a) n))"

definition js_gt :: "(string \<Rightarrow> jsnum) \<Rightarrow> jsval \<Rightarrow> jsnum \<Rightarrow> js_error + bool" where
  "js_gt other a n =
     (if throws a then Inl TypeError else Inr (num_lt n (ToNumber other a)))"

definition js_le :: "(string \<Rightarrow> jsnum) \<Rightarrow> jsval \<Rightarrow> jsnum \<Rightarrow> js_error + bool" where
  "js_le other a n =
     (if throws a then Inl TypeError
      else Inr (ToNumber other a \<noteq> NaN \<and> n \<noteq> NaN \<and> \<not> num_lt n (ToNumber other a)))"

definition strict_eq :: "jsval \<Rightarrow> jsnum \<Rightarrow> bool" where
  "strict_eq a n = (a = JNum n \<and> n \<noteq> NaN)"

text \<open>
  \<^verbatim>\<open>${n}\<close> for an integer \<open>n\<close> (the decimal digits, as JavaScript prints every integer
  of magnitude below \<open>10^21\<close>); the program formats only the levels 0, 2, 3 and 4.
\<close>

fun decimal :: "nat \<Rightarrow> string" where
  "decimal n =
     (if n < 10 then [''0123456789'' ! n]
      else decimal (n div 10) @ [''0123456789'' ! (n mod 10)])"

declare decimal.simps [simp del]

definition NumberToString :: "int \<Rightarrow> string" where
  "NumberToString n = (if n < 0 then CHR ''-'' # decimal (nat (- n)) else decimal (nat n))"

section \<open>The world outside the plugin\<close>

text \<open>
  \<^verbatim>\<open>response.data\<close> is the parsed body: \<^verbatim>\<open>null\<close>/\<^verbatim>\<open>undefined\<close>, or a value with
  properties, seen through its property lookup (a key without a value reads as
  \<^verbatim>\<open>undefined\<close>).
\<close>

datatype body = Nullish | Obj "string \<Rightarrow> jsval option"

record response =
  data :: body

text \<open>The callback of \<^verbatim>\<open>setRefresh\<close>: \<^verbatim>\<open>updateValue(b)\<close> on the refresh switch's On.\<close>

datatype callback = UpdateRefreshOn bool

text \<open>
  One constructor for each template literal passed to \<^verbatim>\<open>this.log\<close>, with the values it
  interpolates (an error stands for its \<^verbatim>\<open>message\<close>).
\<close>

datatype logmsg =
    RetryFailed js_error
  | Retrying nat nat js_error
  | SetActiveSending string
  | SetActiveDone bool
  | GetActiveSending string
  | GetActiveState bool
  | SetRotationSpeedSetting int jsval
  | SetRotationSpeedDone int
  | GetRotationSpeedSending string
  | GetRotationSpeedCurrent jsval int
  | RefreshSending string
  | RefreshStarted
  | TimerFetching string
  | TimerRemaining jsval
  | TimerError js_error

text \<open>
  The state threaded through every operation: the network and device (\<open>env\<close>, of any
  type), the URLs requested, the log, the delays awaited (milliseconds) and the
  callbacks scheduled with \<^verbatim>\<open>setTimeout\<close> and not awaited.
\<close>

record 's world =
  env :: 's
  requests :: "string list"
  logged :: "logmsg list"
  delays :: "nat list"
  timers :: "(nat \<times> callback) list"

type_synonym 's transport = "string \<Rightarrow> 's \<Rightarrow> (js_error + response) \<times> 's"

record config =
  ip :: string
  name :: string

text \<open>
  \<^verbatim>\<open>this\<close>: the configuration and the axios instance. One GET either resolves with a
  response or rejects (a network failure, a status outside 2xx, the 20 s timeout).
\<close>

record 's accessory =
  config :: config
  axiosInstance :: "'s transport"

definition LOG :: "logmsg \<Rightarrow> 's world \<Rightarrow> 's world" where
  "LOG m w = w\<lparr>logged := logged w @ [m]\<rparr>"

definition delay :: "nat \<Rightarrow> 's world \<Rightarrow> 's world" where
  "delay ms w = w\<lparr>delays := delays w @ [ms]\<rparr>"

definition setTimeout :: "callback \<Rightarrow> nat \<Rightarrow> 's world \<Rightarrow> 's world" where
  "setTimeout cb ms w = w\<lparr>timers := timers w @ [(ms, cb)]\<rparr>"

definition axios_get :: "'s accessory \<Rightarrow> string \<Rightarrow> 's world \<Rightarrow> (js_error + response) \<times> 's world" where
  "axios_get this url w =
     (case axiosInstance this url (env w) of
        (r, s) \<Rightarrow> (r, w\<lparr>env := s, requests := requests w @ [url]\<rparr>))"

text \<open>\<^verbatim>\<open>response.data[key]\<close>, where \<open>response\<close> may be \<^verbatim>\<open>undefined\<close>.\<close>

definition data_at :: "response option \<Rightarrow> string \<Rightarrow> js_error + jsval" where
  "data_at response key =
     (case response of
        None \<Rightarrow> Inl TypeError
      | Some r \<Rightarrow>
          (case data r of
             Nullish \<Rightarrow> Inl TypeError
           | Obj m \<Rightarrow> Inr (case m key of None \<Rightarrow> JUndefined | Some v \<Rightarrow> v)))"

section \<open>The Device Client: \<^verbatim>\<open>retryRequest\<close>\<close>

text \<open>
  The \<^verbatim>\<open>for\<close> loop of \<^verbatim>\<open>retryRequest(url, retries = 3)\<close> from index \<open>i\<close>; a loop that ends
  without returning resolves with \<^verbatim>\<open>undefined\<close> (\<open>None\<close>).
\<close>

function retryRequest_loop ::
  "'s accessory \<Rightarrow> string \<Rightarrow> nat \<Rightarrow> nat \<Rightarrow> 's world \<Rightarrow> (js_error + response option) \<times> 's world" where
  "retryRequest_loop this url retries i w =
     (if i < retries then
        (case axios_get this url w of
           (Inr response, w1) \<Rightarrow> (Inr (Some response), w1)
         | (Inl error, w1) \<Rightarrow>
             (if i = retries - 1 then (Inl error, LOG (RetryFailed error) w1)
              else retryRequest_loop this url retries (i + 1)
                     (delay 1000 (LOG (Retrying (i + 1) retries error) w1))))
      else (Inr None, w))"
  by pat_completeness auto
termination
  by (relation "measure (\<lambda>(this, url, retries, i, w). retries - i)") auto

declare retryRequest_loop.simps [simp del]

definition retryRequest ::
  "'s accessory \<Rightarrow> string \<Rightarrow> nat \<Rightarrow> 's world \<Rightarrow> (js_error + response option) \<times> 's world" where
  "retryRequest this url retries w = retryRequest_loop this url retries 0 w"

section \<open>The Accessory Adapter\<close>

text \<open>
  The handlers that the constructor registers with the host. The constructor,
  \<^verbatim>\<open>setupCharacteristics\<close> and \<^verbatim>\<open>getServices\<close> only create the three services and
  bind the handlers; they are not modelled.
\<close>

definition setActive :: "'s accessory \<Rightarrow> jsval \<Rightarrow> 's world \<Rightarrow> (js_error + unit) \<times> 's world" where
  \<open>setActive this value w =
     (let url = ''http://'' @ ip (config this) @ ''/mwrite?{"1130":''
                  @ (if ToBoolean value then ''1'' else ''0'') @ ''}'';
          w0 = LOG (SetActiveSending url) w
      in case retryRequest this url 3 w0 of
           (Inl error, w1) \<Rightarrow> (Inl error, w1)
         | (Inr _, w1) \<Rightarrow> (Inr (), LOG (SetActiveDone (ToBoolean value)) w1))\<close>

definition getActive ::
  "(string \<Rightarrow> jsnum) \<Rightarrow> 's accessory \<Rightarrow> 's world \<Rightarrow> (js_error + int) \<times> 's world" where
  \<open>getActive other this w =
     (let url = ''http://'' @ ip (config this) @ ''/mread?{"1130":1}'';
          w0 = LOG (GetActiveSending url) w
      in case retryRequest this url 3 w0 of
           (Inl error, w1) \<Rightarrow> (Inl error, w1)
         | (Inr response, w1) \<Rightarrow>
             (case data_at response ''1130'' of
                Inl error \<Rightarrow> (Inl error, w1)
              | Inr v \<Rightarrow>
                  (case js_gt other v (Fin 0) of
                     Inl error \<Rightarrow> (Inl error, w1)
                   | Inr isActive \<Rightarrow>
                       (Inr (if isActive then 1 else 0), LOG (GetActiveState isActive) w1))))\<close>

definition setRotationSpeed ::
  "(string \<Rightarrow> jsnum) \<Rightarrow> 's accessory \<Rightarrow> jsval \<Rightarrow> 's world \<Rightarrow> (js_error + unit) \<times> 's world" where
  \<open>setRotationSpeed other this value w =
     (case (if strict_eq value (Fin 0) then Inr 0
            else (case js_le other value (Fin 34) of
                    Inl error \<Rightarrow> Inl error
                  | Inr le34 \<Rightarrow>
                      if le34 then Inr 2
                      else (case js_le other value (Fin 57) of
                              Inl error \<Rightarrow> Inl error
                            | Inr le57 \<Rightarrow> if le57 then Inr 3 else Inr 4))) of
        Inl error \<Rightarrow> (Inl error, w)
      | Inr speed \<Rightarrow>
          (let url = ''http://'' @ ip (config this) @ ''/mwrite?{"1130":''
                       @ NumberToString speed @ ''}'';
               w0 = LOG (SetRotationSpeedSetting speed value) w
           in case retryRequest this url 3 w0 of
                (Inl error, w1) \<Rightarrow> (Inl error, w1)
              | (Inr _, w1) \<Rightarrow> (Inr (), LOG (SetRotationSpeedDone speed) w1)))\<close>

text \<open>
  The log line of \<^verbatim>\<open>getRotationSpeed\<close> interpolates the raw value read, which throws
  when that value has no string; the other values interpolated in a log line are
  numbers, strings, or values that a comparison has converted before.
\<close>

definition getRotationSpeed :: "'s accessory \<Rightarrow> 's world \<Rightarrow> (js_error + int) \<times> 's world" where
  \<open>getRotationSpeed this w =
     (let url = ''http://'' @ ip (config this) @ ''/mread?{"1130":1}'';
          w0 = LOG (GetRotationSpeedSending url) w
      in case retryRequest this url 3 w0 of
           (Inl error, w1) \<Rightarrow> (Inl error, w1)
         | (Inr response, w1) \<Rightarrow>
             (case data_at response ''1130'' of
                Inl error \<Rightarrow> (Inl error, w1)
              | Inr speed \<Rightarrow>
                  (let percentage = (if strict_eq speed (Fin 2) then 25
                                     else if strict_eq speed (Fin 3) then 45
                                     else if strict_eq speed (Fin 4) then 70
                                     else 0)
                   in if throws speed then (Inl TypeError, w1)
                      else (Inr percentage,
                            LOG (GetRotationSpeedCurrent speed percentage) w1))))\<close>

definition setRefresh :: "'s accessory \<Rightarrow> jsval \<Rightarrow> 's world \<Rightarrow> (js_error + unit) \<times> 's world" where
  \<open>setRefresh this value w =
     (if \<not> ToBoolean value then (Inr (), w)
      else
        (let writeUrl = ''http://'' @ ip (config this) @ ''/mwrite?{"1161":4}'';
             w0 = LOG (RefreshSending writeUrl) w
         in case retryRequest this writeUrl 3 w0 of
              (Inl error, w1) \<Rightarrow> (Inl error, w1)
            | (Inr _, w1) \<Rightarrow>
                (Inr (), setTimeout (UpdateRefreshOn False) 1000 (LOG RefreshStarted w1))))\<close>

text \<open>
  \<^verbatim>\<open>getTimer\<close>: the body of the \<^verbatim>\<open>try\<close> first, then the function with its \<^verbatim>\<open>catch\<close>,
  which also catches what a comparison throws.
\<close>

definition getTimer_try ::
  "(string \<Rightarrow> jsnum) \<Rightarrow> 's accessory \<Rightarrow> string \<Rightarrow> 's world \<Rightarrow> (js_error + jsval) \<times> 's world" where
  \<open>getTimer_try other this url w0 =
     (case retryRequest this url 3 w0 of
        (Inl error, w1) \<Rightarrow> (Inl error, w1)
      | (Inr response, w1) \<Rightarrow>
          (case data_at response ''1110'' of
             Inl error \<Rightarrow> (Inl error, w1)
           | Inr raw \<Rightarrow>
               (case (case js_lt other raw (Fin 0) of
                        Inl error \<Rightarrow> Inl error
                      | Inr tooLow \<Rightarrow>
                          if tooLow then Inr (JInt 0)
                          else (case js_gt other raw (Fin 100) of
                                  Inl error \<Rightarrow> Inl error
                                | Inr tooHigh \<Rightarrow> if tooHigh then Inr (JInt 100) else Inr raw)) of
                  Inl error \<Rightarrow> (Inl error, w1)
                | Inr timerValue \<Rightarrow> (Inr timerValue, LOG (TimerRemaining timerValue) w1))))\<close>

definition getTimer ::
  "(string \<Rightarrow> jsnum) \<Rightarrow> 's accessory \<Rightarrow> 's world \<Rightarrow> (js_error + jsval) \<times> 's world" where
  \<open>getTimer other this w =
     (let url = ''http://'' @ ip (config this) @ ''/mread?{"1110":2}'';
          w0 = LOG (TimerFetching url) w
      in case getTimer_try other this url w0 of
           (Inr timerValue, w1) \<Rightarrow> (Inr timerValue, w1)
         | (Inl error, w1) \<Rightarrow> (Inr (JInt 0), LOG (TimerError error) w1))\<close>

section \<open>Stand-ins for the host, the network and the device\<close>

text \<open>
  A scripted network: the outcomes of the next GETs, in order; once the script is used
  up every GET times out.
\<close>

fun scripted :: "(js_error + response) list transport" where
  "scripted url (x # xs) = (x, xs)"
| "scripted url [] = (Inl (AxiosError ''timeout of 20000ms exceeded''), [])"

text \<open>
  The writes the plugin can request: register 1130 with 0 to 4 and register 1161 with 4.
\<close>

definition plugin_writes :: "(string \<times> int) list" where
  "plugin_writes =
     [(''1130'', 0), (''1130'', 1), (''1130'', 2), (''1130'', 3), (''1130'', 4), (''1161'', 4)]"

text \<open>
  Modelled from the spec: the device is external and its firmware is not part of the
  repository. Section 3 and section 6 of the specification describe it as numbered
  registers holding integers, written with \<^verbatim>\<open>/mwrite?{"<register>":<value>}\<close> and read
  with \<^verbatim>\<open>/mread?{"<register>":<count>}\<close>, the answer mapping the register key to its
  value. This device at address \<open>host\<close> stores every value the plugin can write, answers
  a read of register 1130 with the value stored, and answers anything else with status
  404.
\<close>

definition device :: "string \<Rightarrow> (string \<Rightarrow> int) transport" where
  \<open>device host url regs =
     (case find (\<lambda>(k, v). url = ''http://'' @ host @ ''/mwrite?{"'' @ k @ ''":''
                                  @ NumberToString v @ ''}'') plugin_writes of
        Some (k, v) \<Rightarrow> (Inr \<lparr>data = Obj Map.empty\<rparr>, regs(k := v))
      | None \<Rightarrow>
          (if url = ''http://'' @ host @ ''/mread?{"1130":1}''
           then (Inr \<lparr>data = Obj [''1130'' \<mapsto> JInt (regs ''1130'')]\<rparr>, regs)
           else (Inl (AxiosError ''Request failed with status code 404''), regs)))\<close>

text \<open>Concrete inputs for the examples.\<close>

definition test_config :: config where
  "test_config = \<lparr>ip = ''192.168.1.50'', name = ''Ventilator''\<rparr>"

definition scripted_accessory :: "(js_error + response) list accessory" where
  "scripted_accessory = \<lparr>config = test_config, axiosInstance = scripted\<rparr>"

definition device_accessory :: "(string \<Rightarrow> int) accessory" where
  "device_accessory = \<lparr>config = test_config, axiosInstance = device (ip test_config)\<rparr>"

definition start :: "'s \<Rightarrow> 's world" where
  "start s = \<lparr>env = s, requests = [], logged = [], delays = [], timers = []\<rparr>"

definition reply :: "string \<Rightarrow> jsval \<Rightarrow> response" where
  "reply key v = \<lparr>data = Obj [key \<mapsto> v]\<rparr>"

text \<open>
  A conversion that takes every string outside the written-out part of
  \<open>StringToNumber\<close> to NaN; the examples below use it only where no such string occurs.
\<close>

definition no_other :: "string \<Rightarrow> jsnum" where
  "no_other s = NaN"


section \<open>The retry loop, unfolded\<close>

lemma loop_ok:
  "i < retries \<Longrightarrow> axiosInstance this url (env w) = (Inr r, s) \<Longrightarrow>
   retryRequest_loop this url retries i w =
     (Inr (Some r), w\<lparr>env := s, requests := requests w @ [url]\<rparr>)"
  by (subst retryRequest_loop.simps) (simp add: axios_get_def)

lemma loop_last:
  "Suc i = retries \<Longrightarrow> axiosInstance this url (env w) = (Inl e, s) \<Longrightarrow>
   retryRequest_loop this url retries i w =
     (Inl e, LOG (RetryFailed e) (w\<lparr>env := s, requests := requests w @ [url]\<rparr>))"
  by (subst retryRequest_loop.simps) (auto simp add: axios_get_def)

lemma loop_again:
  "Suc i < retries \<Longrightarrow> axiosInstance this url (env w) = (Inl e, s) \<Longrightarrow>
   retryRequest_loop this url retries i w =
     retryRequest_loop this url retries (Suc i)
       (delay 1000 (LOG (Retrying (Suc i) retries e)
          (w\<lparr>env := s, requests := requests w @ [url]\<rparr>)))"
  by (subst retryRequest_loop.simps) (auto simp add: axios_get_def)

text \<open>With the default budget of 3, the loop is a cascade of at most three GETs.\<close>

lemma retryRequest_3:
  "retryRequest this url 3 w =
     (case axiosInstance this url (env w) of
        (Inr r1, s1) \<Rightarrow> (Inr (Some r1), w\<lparr>env := s1, requests := requests w @ [url]\<rparr>)
      | (Inl e1, s1) \<Rightarrow>
          (case axiosInstance this url s1 of
             (Inr r2, s2) \<Rightarrow>
               (Inr (Some r2),
                w\<lparr>env := s2, requests := requests w @ [url, url],
                  logged := logged w @ [Retrying 1 3 e1], delays := delays w @ [1000]\<rparr>)
           | (Inl e2, s2) \<Rightarrow>
               (case axiosInstance this url s2 of
                  (Inr r3, s3) \<Rightarrow>
                    (Inr (Some r3),
                     w\<lparr>env := s3, requests := requests w @ [url, url, url],
                       logged := logged w @ [Retrying 1 3 e1, Retrying 2 3 e2],
                       delays := delays w @ [1000, 1000]\<rparr>)
                | (Inl e3, s3) \<Rightarrow>
                    (Inl e3,
                     w\<lparr>env := s3, requests := requests w @ [url, url, url],
                       logged := logged w @ [Retrying 1 3 e1, Retrying 2 3 e2, RetryFailed e3],
                       delays := delays w @ [1000, 1000]\<rparr>))))"
proof (cases "axiosInstance this url (env w)")
  case (Pair r1 s1)
  note a1 = this
  show ?thesis
  proof (cases r1)
    case (Inr resp)
    with a1 show ?thesis by (simp add: retryRequest_def loop_ok)
  next
    case (Inl e1)
    note b1 = this
    obtain r2 s2 where a2: "axiosInstance this url s1 = (r2, s2)"
      by (cases "axiosInstance this url s1")
    show ?thesis
    proof (cases r2)
      case (Inr resp)
      with a1 b1 a2 show ?thesis
        by (simp add: retryRequest_def loop_again loop_ok LOG_def delay_def)
    next
      case (Inl e2)
      note b2 = this
      obtain r3 s3 where a3: "axiosInstance this url s2 = (r3, s3)"
        by (cases "axiosInstance this url s2")
      show ?thesis
      proof (cases r3)
        case (Inr resp)
        with a1 b1 a2 b2 a3 show ?thesis
          by (simp add: retryRequest_def loop_again loop_ok LOG_def delay_def numeral_2_eq_2)
      next
        case (Inl e3)
        with a1 b1 a2 b2 a3 show ?thesis
          by (simp add: retryRequest_def loop_again loop_last LOG_def delay_def numeral_2_eq_2)
      qed
    qed
  qed
qed

lemma retryRequest_3_fst_LOG:
  "fst (retryRequest this url 3 (LOG m w)) = fst (retryRequest this url 3 w)"
  by (simp add: retryRequest_3 LOG_def split: prod.split sum.split)

lemma retryRequest_3_defined: "fst (retryRequest this url 3 w) \<noteq> Inr None"
  by (simp add: retryRequest_3 split: prod.split sum.split)

lemma retryRequest_3_trace:
  "\<exists>k. 1 \<le> k \<and> k \<le> 3 \<and>
       requests (snd (retryRequest this url 3 w)) = requests w @ replicate k url \<and>
       delays (snd (retryRequest this url 3 w)) = delays w @ replicate (k - 1) 1000 \<and>
       timers (snd (retryRequest this url 3 w)) = timers w"
proof (cases "axiosInstance this url (env w)")
  case (Pair r1 s1)
  note a1 = this
  obtain r2 s2 where a2: "axiosInstance this url s1 = (r2, s2)"
    by (cases "axiosInstance this url s1")
  obtain r3 s3 where a3: "axiosInstance this url s2 = (r3, s3)"
    by (cases "axiosInstance this url s2")
  let ?w = "snd (retryRequest this url 3 w)"
  show ?thesis
  proof (cases r1)
    case (Inr x)
    with a1 have "requests ?w = requests w @ [url] \<and> delays ?w = delays w \<and> timers ?w = timers w"
      by (simp add: retryRequest_3)
    then show ?thesis by (intro exI[of _ 1]) simp
  next
    case (Inl e1)
    note b1 = this
    show ?thesis
    proof (cases r2)
      case (Inr x)
      with a1 b1 a2 have "requests ?w = requests w @ [url, url] \<and>
          delays ?w = delays w @ [1000] \<and> timers ?w = timers w"
        by (simp add: retryRequest_3)
      then show ?thesis by (intro exI[of _ 2]) (simp add: numeral_2_eq_2)
    next
      case (Inl e2)
      with a1 b1 a2 a3 have "requests ?w = requests w @ [url, url, url] \<and>
          delays ?w = delays w @ [1000, 1000] \<and> timers ?w = timers w"
        by (cases r3) (simp_all add: retryRequest_3)
      then show ?thesis by (intro exI[of _ 3]) (simp add: numeral_3_eq_3)
    qed
  qed
qed

section \<open>The retry budget\<close>

text \<open>
  Claim C3 says that a read or write whose three attempts all fail raises a
  DeviceUnreachable failure carrying the message of the transport error. The code
  rethrows the error of the last attempt as it is: on a network that fails three times
  the promise rejects with the third axios error, not with a DeviceUnreachable.
\<close>

theorem retryRequest_rethrows_counterexample:
  "fst (retryRequest scripted_accessory ''http://192.168.1.50/mread?{\"1130\":1}'' 3
          (start [Inl (AxiosError ''ECONNRESET''), Inl (AxiosError ''ETIMEDOUT''),
                  Inl (AxiosError ''EHOSTUNREACH'')]))
     = Inl (AxiosError ''EHOSTUNREACH'') \<and>
   fst (retryRequest scripted_accessory ''http://192.168.1.50/mread?{\"1130\":1}'' 3
          (start [Inl (AxiosError ''ECONNRESET''), Inl (AxiosError ''ETIMEDOUT''),
                  Inl (AxiosError ''EHOSTUNREACH'')]))
     \<noteq> Inl (DeviceUnreachable ''EHOSTUNREACH'')"
  by (simp add: retryRequest_3 scripted_accessory_def start_def)

text \<open>
  Claim C3, amended. Every Device Client read or write is \<open>retryRequest\<close> with the
  default budget of 3. It makes between one and three GETs of the same URL and awaits
  one delay of 1000 ms between two consecutive attempts. The first attempt that succeeds
  ends it: its response is returned after one delay for each failed attempt before it
  (none, one or two), each of those failures having been logged. When all three
  attempts fail, the promise rejects with the error of the third attempt itself (the
  transport's own error, message included) and the log holds one entry for each failed
  attempt.
\<close>

theorem retryRequest_budget:
  "(\<exists>k. 1 \<le> k \<and> k \<le> 3 \<and>
        requests (snd (retryRequest this url 3 w)) = requests w @ replicate k url \<and>
        delays (snd (retryRequest this url 3 w)) = delays w @ replicate (k - 1) 1000) \<and>
   (axiosInstance this url (env w) = (Inr resp1, t1) \<longrightarrow>
      fst (retryRequest this url 3 w) = Inr (Some resp1) \<and>
      requests (snd (retryRequest this url 3 w)) = requests w @ [url] \<and>
      delays (snd (retryRequest this url 3 w)) = delays w \<and>
      logged (snd (retryRequest this url 3 w)) = logged w) \<and>
   (axiosInstance this url (env w) = (Inl e1, s1) \<longrightarrow>
    axiosInstance this url s1 = (Inr resp2, t2) \<longrightarrow>
      fst (retryRequest this url 3 w) = Inr (Some resp2) \<and>
      requests (snd (retryRequest this url 3 w)) = requests w @ [url, url] \<and>
      delays (snd (retryRequest this url 3 w)) = delays w @ [1000] \<and>
      logged (snd (retryRequest this url 3 w)) = logged w @ [Retrying 1 3 e1]) \<and>
   (axiosInstance this url (env w) = (Inl e1, s1) \<longrightarrow>
    axiosInstance this url s1 = (Inl e2, s2) \<longrightarrow>
    axiosInstance this url s2 = (Inr resp3, t3) \<longrightarrow>
      fst (retryRequest this url 3 w) = Inr (Some resp3) \<and>
      requests (snd (retryRequest this url 3 w)) = requests w @ [url, url, url] \<and>
      delays (snd (retryRequest this url 3 w)) = delays w @ [1000, 1000] \<and>
      logged (snd (retryRequest this url 3 w)) = logged w @ [Retrying 1 3 e1, Retrying 2 3 e2]) \<and>
   (axiosInstance this url (env w) = (Inl e1, s1) \<longrightarrow>
    axiosInstance this url s1 = (Inl e2, s2) \<longrightarrow>
    axiosInstance this url s2 = (Inl e3, s3) \<longrightarrow>
      fst (retryRequest this url 3 w) = Inl e3 \<and>
      requests (snd (retryRequest this url 3 w)) = requests w @ [url, url, url] \<and>
      delays (snd (retryRequest this url 3 w)) = delays w @ [1000, 1000] \<and>
      logged (snd (retryRequest this url 3 w)) =
        logged w @ [Retrying 1 3 e1, Retrying 2 3 e2, RetryFailed e3])"
proof (intro conjI impI)
  show "\<exists>k. 1 \<le> k \<and> k \<le> 3 \<and>
        requests (snd (retryRequest this url 3 w)) = requests w @ replicate k url \<and>
        delays (snd (retryRequest this url 3 w)) = delays w @ replicate (k - 1) 1000"
    using retryRequest_3_trace [of this url w] by blast
qed (simp_all add: retryRequest_3)

text \<open>
  Runs over a scripted network: one failure then a response, two failures then a
  response, and three failures.
\<close>

theorem retryRequest_budget_witness:
  "fst (retryRequest scripted_accessory ''http://192.168.1.50/mread?{\"1130\":1}'' 3
          (start [Inl (AxiosError ''ECONNRESET''), Inr (reply ''1130'' (JInt 2))]))
     = Inr (Some (reply ''1130'' (JInt 2))) \<and>
   logged (snd (retryRequest scripted_accessory ''http://192.168.1.50/mread?{\"1130\":1}'' 3
          (start [Inl (AxiosError ''ECONNRESET''), Inr (reply ''1130'' (JInt 2))])))
     = [Retrying 1 3 (AxiosError ''ECONNRESET'')] \<and>
   delays (snd (retryRequest scripted_accessory ''http://192.168.1.50/mread?{\"1130\":1}'' 3
          (start [Inl (AxiosError ''ECONNRESET''), Inr (reply ''1130'' (JInt 2))])))
     = [1000] \<and>
   fst (retryRequest scripted_accessory ''http://192.168.1.50/mread?{\"1130\":1}'' 3
          (start [Inl (AxiosError ''ECONNRESET''), Inl (AxiosError ''ETIMEDOUT''),
                  Inr (reply ''1130'' (JInt 2))]))
     = Inr (Some (reply ''1130'' (JInt 2))) \<and>
   delays (snd (retryRequest scripted_accessory ''http://192.168.1.50/mread?{\"1130\":1}'' 3
          (start [Inl (AxiosError ''ECONNRESET''), Inl (AxiosError ''ETIMEDOUT''),
                  Inr (reply ''1130'' (JInt 2))])))
     = [1000, 1000] \<and>
   fst (retryRequest scripted_accessory ''http://192.168.1.50/mread?{\"1130\":1}'' 3
          (start [Inl (AxiosError ''ECONNRESET''), Inl (AxiosError ''ETIMEDOUT''),
                  Inl (AxiosError ''EHOSTUNREACH'')]))
     = Inl (AxiosError ''EHOSTUNREACH'') \<and>
   logged (snd (retryRequest scripted_accessory ''http://192.168.1.50/mread?{\"1130\":1}'' 3
          (start [Inl (AxiosError ''ECONNRESET''), Inl (AxiosError ''ETIMEDOUT''),
                  Inl (AxiosError ''EHOSTUNREACH'')])))
     = [Retrying 1 3 (AxiosError ''ECONNRESET''), Retrying 2 3 (AxiosError ''ETIMEDOUT''),
        RetryFailed (AxiosError ''EHOSTUNREACH'')]"
  using
    retryRequest_budget [where this = scripted_accessory
      and url = "''http://192.168.1.50/mread?{\"1130\":1}''"
      and w = "start [Inl (AxiosError ''ECONNRESET''), Inr (reply ''1130'' (JInt 2))]"
      and ?e1.0 = "AxiosError ''ECONNRESET''" and ?s1.0 = "[Inr (reply ''1130'' (JInt 2))]"
      and ?resp2.0 = "reply ''1130'' (JInt 2)" and ?t2.0 = "[]"]
    retryRequest_budget [where this = scripted_accessory
      and url = "''http://192.168.1.50/mread?{\"1130\":1}''"
      and w = "start [Inl (AxiosError ''ECONNRESET''), Inl (AxiosError ''ETIMEDOUT''),
                      Inr (reply ''1130'' (JInt 2))]"
      and ?e1.0 = "AxiosError ''ECONNRESET''"
      and ?s1.0 = "[Inl (AxiosError ''ETIMEDOUT''), Inr (reply ''1130'' (JInt 2))]"
      and ?e2.0 = "AxiosError ''ETIMEDOUT''" and ?s2.0 = "[Inr (reply ''1130'' (JInt 2))]"
      and ?resp3.0 = "reply ''1130'' (JInt 2)" and ?t3.0 = "[]"]
    retryRequest_budget [where this = scripted_accessory
      and url = "''http://192.168.1.50/mread?{\"1130\":1}''"
      and w = "start [Inl (AxiosError ''ECONNRESET''), Inl (AxiosError ''ETIMEDOUT''),
                      Inl (AxiosError ''EHOSTUNREACH'')]"
      and ?e1.0 = "AxiosError ''ECONNRESET''"
      and ?s1.0 = "[Inl (AxiosError ''ETIMEDOUT''), Inl (AxiosError ''EHOSTUNREACH'')]"
      and ?e2.0 = "AxiosError ''ETIMEDOUT''" and ?s2.0 = "[Inl (AxiosError ''EHOSTUNREACH'')]"
      and ?e3.0 = "AxiosError ''EHOSTUNREACH''" and ?s3.0 = "[]"]
  by (simp add: scripted_accessory_def start_def)



lemma read_returns:
  assumes "fst (retryRequest this url 3 w) = Inr (Some resp)"
  obtains w1 where "retryRequest this url 3 (LOG m w) = (Inr (Some resp), w1)"
proof -
  have "fst (retryRequest this url 3 (LOG m w)) = Inr (Some resp)"
    using assms by (simp add: retryRequest_3_fst_LOG)
  then show ?thesis
    by (cases "retryRequest this url 3 (LOG m w)") (auto intro: that)
qed

lemma NumberToString_levels:
  "NumberToString 0 = ''0''" "NumberToString 1 = ''1''" "NumberToString 2 = ''2''"
  "NumberToString 3 = ''3''" "NumberToString 4 = ''4''"
  by (simp_all add: NumberToString_def decimal.simps)

lemma write_trace:
  assumes "op = (case retryRequest this url 3 (LOG m w) of
                   (Inl error, w1) \<Rightarrow> (Inl error, w1)
                 | (Inr x, w1) \<Rightarrow> (Inr (), LOG m' w1))"
  shows "\<exists>k. 1 \<le> k \<and> k \<le> 3 \<and> requests (snd op) = requests w @ replicate k url \<and>
             delays (snd op) = delays w @ replicate (k - 1) 1000"
proof -
  obtain r w1 where eq: "retryRequest this url 3 (LOG m w) = (r, w1)"
    by (cases "retryRequest this url 3 (LOG m w)")
  from retryRequest_3_trace [of this url "LOG m w"] eq
  obtain k where k: "1 \<le> k" "k \<le> 3" "requests w1 = requests w @ replicate k url"
      "delays w1 = delays w @ replicate (k - 1) 1000"
    by (auto simp add: LOG_def)
  have "requests (snd op) = requests w1 \<and> delays (snd op) = delays w1"
    using assms eq by (cases r) (simp_all add: LOG_def)
  with k show ?thesis by auto
qed

section \<open>Speed levels\<close>

text \<open>
  Claim C1. For a percent \<open>p\<close> from 0 to 100, every GET that \<open>setRotationSpeed\<close> makes
  (one to three, by the retry budget) is the write of register 1130 with level 0 when
  \<open>p = 0\<close>, level 2 when \<open>1 \<le> p \<le> 34\<close>, level 3 when \<open>35 \<le> p \<le> 57\<close> and level 4 when
  \<open>58 \<le> p \<le> 100\<close>.
\<close>

theorem setRotationSpeed_level:
  assumes "0 \<le> p" and "p \<le> 100"
  shows "\<exists>k. 1 \<le> k \<and> k \<le> 3 \<and>
           requests (snd (setRotationSpeed other this (JInt p) w)) =
             requests w @ replicate k
               (''http://'' @ ip (config this) @ ''/mwrite?{\"1130\":''
                  @ (if p = 0 then ''0'' else if p \<le> 34 then ''2''
                     else if p \<le> 57 then ''3'' else ''4'') @ ''}'')"
proof -
  let ?L = "if p = 0 then 0 else if p \<le> 34 then 2 else if p \<le> 57 then 3 else (4::int)"
  let ?url = "''http://'' @ ip (config this) @ ''/mwrite?{\"1130\":'' @ NumberToString ?L @ ''}''"
  have "setRotationSpeed other this (JInt p) w =
          (case retryRequest this ?url 3 (LOG (SetRotationSpeedSetting ?L (JInt p)) w) of
             (Inl error, w1) \<Rightarrow> (Inl error, w1)
           | (Inr x, w1) \<Rightarrow> (Inr (), LOG (SetRotationSpeedDone ?L) w1))"
    by (simp add: setRotationSpeed_def strict_eq_def js_le_def Let_def)
  from write_trace [OF this]
  obtain k where "1 \<le> k" "k \<le> 3"
    "requests (snd (setRotationSpeed other this (JInt p) w)) = requests w @ replicate k ?url"
    by blast
  moreover have "NumberToString ?L = (if p = 0 then ''0'' else if p \<le> 34 then ''2''
                     else if p \<le> 57 then ''3'' else ''4'')"
    by (simp add: NumberToString_levels)
  ultimately show ?thesis by auto
qed

text \<open>The bucket bounds 34 and 57, and 0 and 58, on a network that answers at once.\<close>

theorem setRotationSpeed_level_witness:
  "requests (snd (setRotationSpeed no_other scripted_accessory (JInt 34)
      (start [Inr (reply ''1130'' (JInt 0))]))) = [''http://192.168.1.50/mwrite?{\"1130\":2}''] \<and>
   requests (snd (setRotationSpeed no_other scripted_accessory (JInt 57)
      (start [Inr (reply ''1130'' (JInt 0))]))) = [''http://192.168.1.50/mwrite?{\"1130\":3}''] \<and>
   requests (snd (setRotationSpeed no_other scripted_accessory (JInt 0)
      (start [Inr (reply ''1130'' (JInt 0))]))) = [''http://192.168.1.50/mwrite?{\"1130\":0}''] \<and>
   requests (snd (setRotationSpeed no_other scripted_accessory (JInt 58)
      (start [Inr (reply ''1130'' (JInt 0))]))) = [''http://192.168.1.50/mwrite?{\"1130\":4}'']"
proof -
  let ?w = "start [Inr (reply ''1130'' (JInt 0))]"
  have one: "requests (snd (setRotationSpeed no_other scripted_accessory (JInt p) ?w)) = [u]"
    if "\<exists>k. 1 \<le> k \<and> k \<le> 3 \<and>
          requests (snd (setRotationSpeed no_other scripted_accessory (JInt p) ?w)) =
            requests ?w @ replicate k u"
      and "length (requests (snd (setRotationSpeed no_other scripted_accessory (JInt p) ?w))) = 1"
    for p u
  proof -
    from that obtain k where k: "1 \<le> k"
      "requests (snd (setRotationSpeed no_other scripted_accessory (JInt p) ?w)) = replicate k u"
      by (auto simp add: start_def)
    with that(2) have "k = 1" by simp
    with k show ?thesis by simp
  qed
  have len: "length (requests (snd (setRotationSpeed no_other scripted_accessory (JInt p) ?w))) = 1"
    for p
    by (simp add: setRotationSpeed_def strict_eq_def js_le_def Let_def retryRequest_3
        scripted_accessory_def start_def LOG_def)
  have "(0::int) \<le> 34" "(34::int) \<le> 100" "(0::int) \<le> 57" "(57::int) \<le> 100"
       "(0::int) \<le> 0" "(0::int) \<le> 100" "(0::int) \<le> 58" "(58::int) \<le> 100"
    by simp_all
  then show ?thesis
    using one [OF setRotationSpeed_level [of 34 no_other scripted_accessory ?w] len]
      one [OF setRotationSpeed_level [of 57 no_other scripted_accessory ?w] len]
      one [OF setRotationSpeed_level [of 0 no_other scripted_accessory ?w] len]
      one [OF setRotationSpeed_level [of 58 no_other scripted_accessory ?w] len]
    by (simp add: scripted_accessory_def test_config_def)
qed

text \<open>
  Claim C2. When the read of register 1130 returns the integer \<open>v\<close>, \<open>getRotationSpeed\<close>
  returns 25 for 2, 45 for 3, 70 for 4 and 0 for every other integer.
\<close>

theorem getRotationSpeed_percent:
  assumes "fst (retryRequest this (''http://'' @ ip (config this) @ ''/mread?{\"1130\":1}'') 3 w)
             = Inr (Some resp)"
    and "data resp = Obj m"
    and "m ''1130'' = Some (JInt v)"
  shows "fst (getRotationSpeed this w) =
           Inr (if v = 2 then 25 else if v = 3 then 45 else if v = 4 then 70 else 0)"
proof -
  obtain w1 where
    "retryRequest this (''http://'' @ ip (config this) @ ''/mread?{\"1130\":1}'') 3
       (LOG (GetRotationSpeedSending (''http://'' @ ip (config this) @ ''/mread?{\"1130\":1}'')) w)
     = (Inr (Some resp), w1)"
    using assms(1) by (rule read_returns)
  then show ?thesis
    using assms(2,3) by (simp add: getRotationSpeed_def data_at_def strict_eq_def)
qed

text \<open>Device values 2, 3, 4, then 0, 1 and the unrecognised 9.\<close>

theorem getRotationSpeed_percent_witness:
  "fst (getRotationSpeed scripted_accessory (start [Inr (reply ''1130'' (JInt 2))])) = Inr 25 \<and>
   fst (getRotationSpeed scripted_accessory (start [Inr (reply ''1130'' (JInt 3))])) = Inr 45 \<and>
   fst (getRotationSpeed scripted_accessory (start [Inr (reply ''1130'' (JInt 4))])) = Inr 70 \<and>
   fst (getRotationSpeed scripted_accessory (start [Inr (reply ''1130'' (JInt 0))])) = Inr 0 \<and>
   fst (getRotationSpeed scripted_accessory (start [Inr (reply ''1130'' (JInt 1))])) = Inr 0 \<and>
   fst (getRotationSpeed scripted_accessory (start [Inr (reply ''1130'' (JInt 9))])) = Inr 0"
proof -
  have r: "fst (retryRequest scripted_accessory
                 (''http://'' @ ip (config scripted_accessory) @ ''/mread?{\"1130\":1}'') 3
                 (start [Inr (reply ''1130'' (JInt v))])) = Inr (Some (reply ''1130'' (JInt v)))"
    for v
    by (simp add: retryRequest_3 scripted_accessory_def start_def)
  have d: "data (reply ''1130'' (JInt v)) = Obj [''1130'' \<mapsto> JInt v]" for v
    by (simp add: reply_def)
  have k: "[''1130'' \<mapsto> JInt v] ''1130'' = Some (JInt v)" for v
    by simp
  show ?thesis
    using getRotationSpeed_percent [OF r d k, of 2] getRotationSpeed_percent [OF r d k, of 3]
      getRotationSpeed_percent [OF r d k, of 4] getRotationSpeed_percent [OF r d k, of 0]
      getRotationSpeed_percent [OF r d k, of 1] getRotationSpeed_percent [OF r d k, of 9]
    by simp
qed

section \<open>Power state\<close>

text \<open>
  Claim C7. When the read of register 1130 returns the integer \<open>v\<close>, \<open>getActive\<close> computes
  \<open>isActive\<close> as \<open>v > 0\<close> (it logs ON exactly then) and returns 1, the host's value for
  active, exactly when \<open>v > 0\<close>; for 0 and for every negative value it returns 0.
\<close>

theorem getActive_positive:
  assumes "fst (retryRequest this (''http://'' @ ip (config this) @ ''/mread?{\"1130\":1}'') 3 w)
             = Inr (Some resp)"
    and "data resp = Obj m"
    and "m ''1130'' = Some (JInt v)"
  shows "fst (getActive other this w) = Inr (if 0 < v then 1 else 0) \<and>
         last (logged (snd (getActive other this w))) = GetActiveState (0 < v)"
proof -
  obtain w1 where
    "retryRequest this (''http://'' @ ip (config this) @ ''/mread?{\"1130\":1}'') 3
       (LOG (GetActiveSending (''http://'' @ ip (config this) @ ''/mread?{\"1130\":1}'')) w)
     = (Inr (Some resp), w1)"
    using assms(1) by (rule read_returns)
  then show ?thesis
    using assms(2,3) by (simp add: getActive_def data_at_def js_gt_def LOG_def)
qed

text \<open>Device values 3, 0 and -2.\<close>

theorem getActive_positive_witness:
  "fst (getActive no_other scripted_accessory (start [Inr (reply ''1130'' (JInt 3))])) = Inr 1 \<and>
   fst (getActive no_other scripted_accessory (start [Inr (reply ''1130'' (JInt 0))])) = Inr 0 \<and>
   fst (getActive no_other scripted_accessory (start [Inr (reply ''1130'' (JInt (- 2)))])) = Inr 0"
proof -
  have r: "fst (retryRequest scripted_accessory
                 (''http://'' @ ip (config scripted_accessory) @ ''/mread?{\"1130\":1}'') 3
                 (start [Inr (reply ''1130'' (JInt v))])) = Inr (Some (reply ''1130'' (JInt v)))"
    for v
    by (simp add: retryRequest_3 scripted_accessory_def start_def)
  have d: "data (reply ''1130'' (JInt v)) = Obj [''1130'' \<mapsto> JInt v]" for v
    by (simp add: reply_def)
  have k: "[''1130'' \<mapsto> JInt v] ''1130'' = Some (JInt v)" for v
    by simp
  show ?thesis
    using getActive_positive [OF r [of 3] d k, where other = no_other] getActive_positive [OF r [of 0] d k, where other = no_other]
      getActive_positive [OF r [of "- 2"] d k, where other = no_other]
    by simp
qed

section \<open>The timer\<close>

text \<open>
  Claim C4. When the read of register 1110 returns the integer \<open>v\<close>, \<open>getTimer\<close> returns
  0 if \<open>v < 0\<close>, 100 if \<open>v > 100\<close> and \<open>v\<close> itself otherwise.
\<close>

theorem getTimer_clamps:
  assumes "fst (retryRequest this (''http://'' @ ip (config this) @ ''/mread?{\"1110\":2}'') 3 w)
             = Inr (Some resp)"
    and "data resp = Obj m"
    and "m ''1110'' = Some (JInt v)"
  shows "fst (getTimer other this w) =
           Inr (JInt (if v < 0 then 0 else if 100 < v then 100 else v))"
proof -
  obtain w1 where
    "retryRequest this (''http://'' @ ip (config this) @ ''/mread?{\"1110\":2}'') 3
       (LOG (TimerFetching (''http://'' @ ip (config this) @ ''/mread?{\"1110\":2}'')) w)
     = (Inr (Some resp), w1)"
    using assms(1) by (rule read_returns)
  then show ?thesis
    using assms(2,3) by (simp add: getTimer_def getTimer_try_def data_at_def js_gt_def js_lt_def Let_def)
qed

text \<open>The raw values -50, 0, 50, 100 and 150 give 0, 0, 50, 100 and 100.\<close>

theorem getTimer_clamps_witness:
  "fst (getTimer no_other scripted_accessory (start [Inr (reply ''1110'' (JInt (- 50)))])) = Inr (JInt 0) \<and>
   fst (getTimer no_other scripted_accessory (start [Inr (reply ''1110'' (JInt 0))])) = Inr (JInt 0) \<and>
   fst (getTimer no_other scripted_accessory (start [Inr (reply ''1110'' (JInt 50))])) = Inr (JInt 50) \<and>
   fst (getTimer no_other scripted_accessory (start [Inr (reply ''1110'' (JInt 100))])) = Inr (JInt 100) \<and>
   fst (getTimer no_other scripted_accessory (start [Inr (reply ''1110'' (JInt 150))])) = Inr (JInt 100)"
proof -
  have r: "fst (retryRequest scripted_accessory
                 (''http://'' @ ip (config scripted_accessory) @ ''/mread?{\"1110\":2}'') 3
                 (start [Inr (reply ''1110'' (JInt v))])) = Inr (Some (reply ''1110'' (JInt v)))"
    for v
    by (simp add: retryRequest_3 scripted_accessory_def start_def)
  have d: "data (reply ''1110'' (JInt v)) = Obj [''1110'' \<mapsto> JInt v]" for v
    by (simp add: reply_def)
  have k: "[''1110'' \<mapsto> JInt v] ''1110'' = Some (JInt v)" for v
    by simp
  show ?thesis
    using getTimer_clamps [OF r [of "- 50"] d k, where other = no_other] getTimer_clamps [OF r [of 0] d k, where other = no_other]
      getTimer_clamps [OF r [of 50] d k, where other = no_other] getTimer_clamps [OF r [of 100] d k, where other = no_other]
      getTimer_clamps [OF r [of 150] d k, where other = no_other]
    by simp
qed

section \<open>Failure of all attempts\<close>




section \<open>The refresh trigger\<close>

text \<open>
  Claim C6. \<open>setRefresh\<close> with a false value returns at once and leaves the world as it
  was: no GET, no log entry, no timer. With a true value it performs one Device Client
  write, every GET of which (one to three, by the retry budget) is the write of register
  1161 with value 4; when the device answers the first GET that is the only request.
  When the write succeeds, exactly one callback that resets the switch to false is
  scheduled 1000 ms ahead, and the only delays awaited are those between retries, so the
  callback is not awaited; when the write fails, nothing is scheduled.
\<close>

theorem setRefresh_effects:
  "(\<not> ToBoolean value \<longrightarrow> setRefresh this value w = (Inr (), w)) \<and>
   (ToBoolean value \<longrightarrow>
      (\<exists>k. 1 \<le> k \<and> k \<le> 3 \<and>
         requests (snd (setRefresh this value w)) =
           requests w @ replicate k (''http://'' @ ip (config this) @ ''/mwrite?{\"1161\":4}'') \<and>
         delays (snd (setRefresh this value w)) = delays w @ replicate (k - 1) 1000) \<and>
      (axiosInstance this (''http://'' @ ip (config this) @ ''/mwrite?{\"1161\":4}'') (env w)
         = (Inr resp, s) \<longrightarrow>
         fst (setRefresh this value w) = Inr () \<and>
         requests (snd (setRefresh this value w)) =
           requests w @ [''http://'' @ ip (config this) @ ''/mwrite?{\"1161\":4}''] \<and>
         delays (snd (setRefresh this value w)) = delays w) \<and>
      (fst (setRefresh this value w) = Inr () \<longrightarrow>
         timers (snd (setRefresh this value w)) = timers w @ [(1000, UpdateRefreshOn False)]) \<and>
      (fst (setRefresh this value w) \<noteq> Inr () \<longrightarrow>
         timers (snd (setRefresh this value w)) = timers w))"
proof (intro conjI impI)
  assume "\<not> ToBoolean value"
  then show "setRefresh this value w = (Inr (), w)"
    by (simp add: setRefresh_def Let_def)
next
  let ?u = "''http://'' @ ip (config this) @ ''/mwrite?{\"1161\":4}''"
  assume v: "ToBoolean value"
  obtain r w1 where eq: "retryRequest this ?u 3 (LOG (RefreshSending ?u) w) = (r, w1)"
    by (cases "retryRequest this ?u 3 (LOG (RefreshSending ?u) w)")
  from retryRequest_3_trace [of this ?u "LOG (RefreshSending ?u) w"] eq
  obtain k where k: "1 \<le> k" "k \<le> 3" "requests w1 = requests w @ replicate k ?u"
      "delays w1 = delays w @ replicate (k - 1) 1000" "timers w1 = timers w"
    by (auto simp add: LOG_def)
  have "requests (snd (setRefresh this value w)) = requests w1 \<and>
        delays (snd (setRefresh this value w)) = delays w1"
    using v eq by (cases r) (simp_all add: setRefresh_def Let_def LOG_def setTimeout_def)
  with k show "\<exists>k. 1 \<le> k \<and> k \<le> 3 \<and>
         requests (snd (setRefresh this value w)) = requests w @ replicate k ?u \<and>
         delays (snd (setRefresh this value w)) = delays w @ replicate (k - 1) 1000"
    by auto
  {
    assume "fst (setRefresh this value w) = Inr ()"
    with v eq k(5)
    show "timers (snd (setRefresh this value w)) = timers w @ [(1000, UpdateRefreshOn False)]"
      by (cases r) (simp_all add: setRefresh_def Let_def LOG_def setTimeout_def)
  }
  {
    assume "fst (setRefresh this value w) \<noteq> Inr ()"
    with v eq k(5)
    show "timers (snd (setRefresh this value w)) = timers w"
      by (cases r) (simp_all add: setRefresh_def Let_def LOG_def setTimeout_def)
  }
  {
    assume "axiosInstance this ?u (env w) = (Inr resp, s)"
    then have f: "retryRequest this ?u 3 (LOG (RefreshSending ?u) w) =
        (Inr (Some resp), (LOG (RefreshSending ?u) w)\<lparr>env := s, requests := requests w @ [?u]\<rparr>)"
      by (simp add: retryRequest_3 LOG_def)
    from v f show "fst (setRefresh this value w) = Inr ()"
      by (simp add: setRefresh_def Let_def)
    from v f show "requests (snd (setRefresh this value w)) = requests w @ [?u]"
      by (simp add: setRefresh_def Let_def LOG_def setTimeout_def)
    from v f show "delays (snd (setRefresh this value w)) = delays w"
      by (simp add: setRefresh_def Let_def LOG_def setTimeout_def)
  }
qed

text \<open>A false trigger, and a true trigger answered at once.\<close>

theorem setRefresh_effects_witness:
  "setRefresh scripted_accessory (JBool False) (start [Inr (reply ''1161'' (JInt 4))])
     = (Inr (), start [Inr (reply ''1161'' (JInt 4))]) \<and>
   fst (setRefresh scripted_accessory (JBool True) (start [Inr (reply ''1161'' (JInt 4))])) = Inr () \<and>
   requests (snd (setRefresh scripted_accessory (JBool True) (start [Inr (reply ''1161'' (JInt 4))])))
     = [''http://192.168.1.50/mwrite?{\"1161\":4}''] \<and>
   timers (snd (setRefresh scripted_accessory (JBool True) (start [Inr (reply ''1161'' (JInt 4))])))
     = [(1000, UpdateRefreshOn False)] \<and>
   delays (snd (setRefresh scripted_accessory (JBool True) (start [Inr (reply ''1161'' (JInt 4))])))
     = []"
  using setRefresh_effects [of "JBool False" scripted_accessory "start [Inr (reply ''1161'' (JInt 4))]"]
    setRefresh_effects [of "JBool True" scripted_accessory "start [Inr (reply ''1161'' (JInt 4))]"
      "reply ''1161'' (JInt 4)" "[]"]
  by (simp add: scripted_accessory_def test_config_def start_def)

section \<open>Writes read back from a device that stores them\<close>

lemma device_write_1130:
  "L \<in> {0, 1, 2, 3, 4} \<Longrightarrow>
   device host (''http://'' @ host @ ''/mwrite?{\"1130\":'' @ NumberToString L @ ''}'') regs =
     (Inr \<lparr>data = Obj Map.empty\<rparr>, regs(''1130'' := L))"
  by (auto simp add: device_def plugin_writes_def NumberToString_levels)

lemma device_read_1130:
  "device host (''http://'' @ host @ ''/mread?{\"1130\":1}'') regs =
     (Inr \<lparr>data = Obj [''1130'' \<mapsto> JInt (regs ''1130'')]\<rparr>, regs)"
  by (simp add: device_def plugin_writes_def NumberToString_levels)

lemma setActive_device:
  assumes "axiosInstance this = device (ip (config this))"
  shows "fst (setActive this value w) = Inr () \<and>
         env (snd (setActive this value w)) = (env w)(''1130'' := (if ToBoolean value then 1 else 0))"
proof -
  let ?L = "if ToBoolean value then 1 else (0::int)"
  let ?u = "''http://'' @ ip (config this) @ ''/mwrite?{\"1130\":'' @ NumberToString ?L @ ''}''"
  have u: "''http://'' @ ip (config this) @ ''/mwrite?{\"1130\":''
                  @ (if ToBoolean value then ''1'' else ''0'') @ ''}'' = ?u"
    by (simp add: NumberToString_levels)
  have "axiosInstance this ?u (env w) = (Inr \<lparr>data = Obj Map.empty\<rparr>, (env w)(''1130'' := ?L))"
    unfolding assms by (rule device_write_1130) simp
  then show ?thesis
    unfolding setActive_def Let_def u
    by (simp add: retryRequest_3 LOG_def)
qed

lemma setRotationSpeed_device:
  assumes "axiosInstance this = device (ip (config this))"
  shows "fst (setRotationSpeed other this (JInt p) w) = Inr () \<and>
         env (snd (setRotationSpeed other this (JInt p) w)) =
           (env w)(''1130'' := (if p = 0 then 0 else if p \<le> 34 then 2 else if p \<le> 57 then 3 else 4))"
proof -
  let ?L = "if p = 0 then 0 else if p \<le> 34 then 2 else if p \<le> 57 then 3 else (4::int)"
  let ?u = "''http://'' @ ip (config this) @ ''/mwrite?{\"1130\":'' @ NumberToString ?L @ ''}''"
  have "axiosInstance this ?u (env w) = (Inr \<lparr>data = Obj Map.empty\<rparr>, (env w)(''1130'' := ?L))"
    unfolding assms by (rule device_write_1130) simp
  then have "retryRequest this ?u 3 (LOG (SetRotationSpeedSetting ?L (JInt p)) w) =
     (Inr (Some \<lparr>data = Obj Map.empty\<rparr>),
      (LOG (SetRotationSpeedSetting ?L (JInt p)) w)
        \<lparr>env := (env w)(''1130'' := ?L), requests := requests w @ [?u]\<rparr>)"
    by (simp add: retryRequest_3 LOG_def)
  moreover have "setRotationSpeed other this (JInt p) w =
          (case retryRequest this ?u 3 (LOG (SetRotationSpeedSetting ?L (JInt p)) w) of
             (Inl error, w1) \<Rightarrow> (Inl error, w1)
           | (Inr x, w1) \<Rightarrow> (Inr (), LOG (SetRotationSpeedDone ?L) w1))"
    by (simp add: setRotationSpeed_def strict_eq_def js_le_def Let_def)
  ultimately show ?thesis
    by (simp add: LOG_def)
qed

lemma getRotationSpeed_device:
  assumes "axiosInstance this = device (ip (config this))"
  shows "fst (getRotationSpeed this w) =
           Inr (if env w ''1130'' = 2 then 25 else if env w ''1130'' = 3 then 45
                else if env w ''1130'' = 4 then 70 else 0) \<and>
         env (snd (getRotationSpeed this w)) = env w"
proof -
  let ?u = "''http://'' @ ip (config this) @ ''/mread?{\"1130\":1}''"
  have "axiosInstance this ?u (env w) =
      (Inr \<lparr>data = Obj [''1130'' \<mapsto> JInt (env w ''1130'')]\<rparr>, env w)"
    unfolding assms by (rule device_read_1130)
  then show ?thesis
    by (simp add: getRotationSpeed_def Let_def retryRequest_3 LOG_def data_at_def strict_eq_def)
qed

text \<open>
  Claim C8. On a device that stores what is written, for a percent \<open>p\<close> from 0 to 100,
  \<open>getRotationSpeed\<close> after \<open>setRotationSpeed\<close> of \<open>p\<close> returns a percent \<open>q\<close> that is one
  of 0, 25, 45 and 70; \<open>setRotationSpeed\<close> of \<open>q\<close> then leaves the registers as the first
  write left them (the same level is written again); and 70 reads back as 70.
\<close>

theorem speed_round_trip:
  assumes "0 \<le> p" and "p \<le> 100"
    and "axiosInstance this = device (ip (config this))"
  shows "\<exists>q. fst (getRotationSpeed this (snd (setRotationSpeed other this (JInt p) w))) = Inr q \<and>
           q \<in> {0, 25, 45, 70} \<and>
           env (snd (setRotationSpeed other this (JInt q)
                  (snd (getRotationSpeed this (snd (setRotationSpeed other this (JInt p) w))))))
             = env (snd (setRotationSpeed other this (JInt p) w)) \<and>
           (p = 70 \<longrightarrow> q = 70)"
proof -
  let ?L = "if p = 0 then 0 else if p \<le> 34 then 2 else if p \<le> 57 then 3 else (4::int)"
  let ?q = "if p = 0 then 0 else if p \<le> 34 then 25 else if p \<le> 57 then 45 else (70::int)"
  define w1 where "w1 = snd (setRotationSpeed other this (JInt p) w)"
  define w2 where "w2 = snd (getRotationSpeed this w1)"
  have e1: "env w1 = (env w)(''1130'' := ?L)"
    unfolding w1_def using setRotationSpeed_device [OF assms(3)] by blast
  then have l1: "env w1 ''1130'' = ?L"
    by simp
  have "fst (getRotationSpeed this w1) =
          Inr (if ?L = 2 then 25 else if ?L = 3 then 45 else if ?L = 4 then 70 else 0)"
    using getRotationSpeed_device [OF assms(3), of w1] unfolding l1 by blast
  also have "(if ?L = 2 then 25 else if ?L = 3 then 45 else if ?L = 4 then 70 else 0) = ?q"
    by simp
  finally have r: "fst (getRotationSpeed this w1) = Inr ?q" .
  have e2: "env w2 = env w1"
    unfolding w2_def using getRotationSpeed_device [OF assms(3), of w1] by blast
  have s3: "env (snd (setRotationSpeed other this (JInt ?q) w2)) =
          (env w2)(''1130'' := (if ?q = 0 then 0 else if ?q \<le> 34 then 2
                                else if ?q \<le> 57 then 3 else 4))"
    using setRotationSpeed_device [OF assms(3), of other ?q w2] by blast
  have same: "(if ?q = 0 then 0 else if ?q \<le> 34 then 2 else if ?q \<le> 57 then 3 else 4) = ?L"
    by simp
  have e3: "env (snd (setRotationSpeed other this (JInt ?q) w2)) = env w1"
    unfolding s3 same e2 e1 by (rule fun_upd_upd)
  have "?q \<in> {0, 25, 45, 70}" and "p = 70 \<longrightarrow> ?q = 70"
    by simp_all
  with r e3 show ?thesis
    unfolding w2_def w1_def by blast
qed

text \<open>70 reads back as 70; 50 reads back as 45, and writing 45 stores level 3 again.\<close>

theorem speed_round_trip_witness:
  "fst (getRotationSpeed device_accessory
          (snd (setRotationSpeed no_other device_accessory (JInt 70) (start (\<lambda>k. 0))))) = Inr 70 \<and>
   fst (getRotationSpeed device_accessory
          (snd (setRotationSpeed no_other device_accessory (JInt 50) (start (\<lambda>k. 0))))) = Inr 45 \<and>
   env (snd (setRotationSpeed no_other device_accessory (JInt 45)
          (snd (getRotationSpeed device_accessory
             (snd (setRotationSpeed no_other device_accessory (JInt 50) (start (\<lambda>k. 0)))))))) ''1130''
     = 3"
proof -
  have d: "axiosInstance device_accessory = device (ip (config device_accessory))"
    by (simp add: device_accessory_def)
  have e: "env (snd (setRotationSpeed no_other device_accessory (JInt 50) (start (\<lambda>k. 0)))) ''1130'' = 3"
    using setRotationSpeed_device [OF d, of no_other 50 "start (\<lambda>k. 0)"] by simp
  have b: "(0::int) \<le> 70" "(70::int) \<le> 100" "(0::int) \<le> 50" "(50::int) \<le> 100"
    by simp_all
  from speed_round_trip [OF b(1,2) d, of no_other "start (\<lambda>k. 0)"]
  have "fst (getRotationSpeed device_accessory
          (snd (setRotationSpeed no_other device_accessory (JInt 70) (start (\<lambda>k. 0))))) = Inr 70"
    by auto
  moreover
  have f: "fst (getRotationSpeed device_accessory
          (snd (setRotationSpeed no_other device_accessory (JInt 50) (start (\<lambda>k. 0))))) = Inr 45"
    using getRotationSpeed_device [OF d,
        of "snd (setRotationSpeed no_other device_accessory (JInt 50) (start (\<lambda>k. 0)))"] e
    by simp
  moreover
  from speed_round_trip [OF b(3,4) d, of no_other "start (\<lambda>k. 0)"] f e
  have "env (snd (setRotationSpeed no_other device_accessory (JInt 45)
          (snd (getRotationSpeed device_accessory
             (snd (setRotationSpeed no_other device_accessory (JInt 50) (start (\<lambda>k. 0)))))))) ''1130''
     = 3"
    by auto
  ultimately show ?thesis by simp
qed

text \<open>
  Claim C9. Every GET of \<open>setActive\<close> is the write of register 1130 with 1 for a true
  value and with 0 for a false one. On a device that stores what is written, after
  \<open>setActive\<close> with a true value register 1130 holds 1 and \<open>getRotationSpeed\<close> returns 0.
\<close>

theorem setActive_register:
  "(\<exists>k. 1 \<le> k \<and> k \<le> 3 \<and>
      requests (snd (setActive this value w)) =
        requests w @ replicate k
          (''http://'' @ ip (config this) @ ''/mwrite?{\"1130\":''
             @ (if ToBoolean value then ''1'' else ''0'') @ ''}'')) \<and>
   (axiosInstance this = device (ip (config this)) \<longrightarrow> ToBoolean value \<longrightarrow>
      fst (setActive this value w) = Inr () \<and>
      env (snd (setActive this value w)) ''1130'' = 1 \<and>
      fst (getRotationSpeed this (snd (setActive this value w))) = Inr 0)"
proof (intro conjI impI)
  show "\<exists>k. 1 \<le> k \<and> k \<le> 3 \<and>
      requests (snd (setActive this value w)) =
        requests w @ replicate k
          (''http://'' @ ip (config this) @ ''/mwrite?{\"1130\":''
             @ (if ToBoolean value then ''1'' else ''0'') @ ''}'')"
    using write_trace [OF setActive_def [unfolded Let_def], of this "value" w]
    by blast
next
  assume d: "axiosInstance this = device (ip (config this))" and v: "ToBoolean value"
  from setActive_device [OF d, of "value" w] v
  show "fst (setActive this value w) = Inr ()"
    and e: "env (snd (setActive this value w)) ''1130'' = 1"
    by simp_all
  from getRotationSpeed_device [OF d, of "snd (setActive this value w)"]
  show "fst (getRotationSpeed this (snd (setActive this value w))) = Inr 0"
    by (simp add: e)
qed

text \<open>On, then the speed read back; and off.\<close>

theorem setActive_register_witness:
  "requests (snd (setActive device_accessory (JInt 1) (start (\<lambda>k. 0))))
     = [''http://192.168.1.50/mwrite?{\"1130\":1}''] \<and>
   requests (snd (setActive device_accessory (JInt 0) (start (\<lambda>k. 0))))
     = [''http://192.168.1.50/mwrite?{\"1130\":0}''] \<and>
   env (snd (setActive device_accessory (JInt 1) (start (\<lambda>k. 0)))) ''1130'' = 1 \<and>
   fst (getRotationSpeed device_accessory (snd (setActive device_accessory (JInt 1) (start (\<lambda>k. 0)))))
     = Inr 0"
proof -
  have d: "axiosInstance device_accessory = device (ip (config device_accessory))"
    by (simp add: device_accessory_def)
  have v: "ToBoolean (JInt 1)"
    by simp
  have r: "requests (snd (setActive device_accessory (JInt 1) (start (\<lambda>k. 0))))
             = [''http://192.168.1.50/mwrite?{\"1130\":1}''] \<and>
           requests (snd (setActive device_accessory (JInt 0) (start (\<lambda>k. 0))))
             = [''http://192.168.1.50/mwrite?{\"1130\":0}'']"
    by (simp add: setActive_def Let_def retryRequest_3 LOG_def device_accessory_def
        test_config_def device_def plugin_writes_def NumberToString_levels start_def)
  from setActive_register [of device_accessory "JInt 1" "start (\<lambda>k. 0)"] d v r
  show ?thesis by simp
qed

section \<open>A timer value that is not a number\<close>

lemma StringToNumber_150: "StringToNumber other ''150'' = Fin 150"
  by (simp add: StringToNumber_def is_digit_def decimal_value_def digit_value_def)

text \<open>
  Claim C10 says that whenever the answer does not map \<^verbatim>\<open>"1110"\<close> to a number, both
  comparisons of \<open>getTimer\<close> are false and the raw value is returned unchanged. A string
  is not a number, but \<^verbatim>\<open>>\<close> converts it: for the answer \<^verbatim>\<open>{"1110":"150"}\<close> the second
  comparison is true and \<open>getTimer\<close> returns the number 100.
\<close>

theorem getTimer_numeric_string_counterexample:
  "js_gt no_other (JStr ''150'') (Fin 100) = Inr True \<and>
   fst (getTimer no_other scripted_accessory (start [Inr (reply ''1110'' (JStr ''150''))]))
     = Inr (JInt 100)"
  by (simp add: getTimer_def getTimer_try_def Let_def retryRequest_3 scripted_accessory_def
      start_def reply_def LOG_def data_at_def js_gt_def js_lt_def StringToNumber_150)

text \<open>
  The same run, whatever the engine does with the strings not written out; the array
  \<^verbatim>\<open>[150]\<close>, which converts through the string \<^verbatim>\<open>150\<close>; and an object with a member
  named \<^verbatim>\<open>toString\<close>, whose conversion throws into the \<^verbatim>\<open>catch\<close>.
\<close>

lemma getTimer_numeric_string_any_engine:
  "fst (getTimer other scripted_accessory (start [Inr (reply ''1110'' (JStr ''150''))]))
     = Inr (JInt 100)"
  by (simp add: getTimer_def getTimer_try_def Let_def retryRequest_3 scripted_accessory_def
      start_def reply_def LOG_def data_at_def js_gt_def js_lt_def StringToNumber_150)

lemma getTimer_numeric_array:
  "fst (getTimer other scripted_accessory (start [Inr (reply ''1110'' (JArr [JInt 150]))]))
     = Inr (JInt 100)"
  by (simp add: getTimer_def getTimer_try_def Let_def retryRequest_3 scripted_accessory_def
      start_def reply_def LOG_def data_at_def js_gt_def js_lt_def)

lemma getTimer_throwing_object:
  "fst (getTimer other scripted_accessory
          (start [Inr (reply ''1110'' (JObj [(''toString'', JInt 150)]))]))
     = Inr (JInt 0)"
  by (simp add: getTimer_def getTimer_try_def Let_def retryRequest_3 scripted_accessory_def
      start_def reply_def LOG_def data_at_def js_gt_def js_lt_def)

text \<open>
  Claim C10, amended. When the answer does not map \<^verbatim>\<open>"1110"\<close> to a number (the key is
  missing, or the value is null, a boolean, a string, an array or an object), converting
  the value does not throw, and the value does not convert to a number below 0 or above
  100 (it converts to NaN or into the range), both comparisons are false and \<open>getTimer\<close>
  returns the raw value unchanged, which is not a number.
\<close>

theorem getTimer_not_a_number:
  assumes "fst (retryRequest this (''http://'' @ ip (config this) @ ''/mread?{\"1110\":2}'') 3 w)
             = Inr (Some resp)"
    and "data resp = Obj m"
    and "raw = (case m ''1110'' of None \<Rightarrow> JUndefined | Some x \<Rightarrow> x)"
    and "\<forall>n. raw \<noteq> JNum n"
    and "\<not> throws raw"
    and "ToNumber other raw = NaN \<or> (\<exists>x. ToNumber other raw = Fin x \<and> 0 \<le> x \<and> x \<le> 100)"
  shows "js_lt other raw (Fin 0) = Inr False \<and> js_gt other raw (Fin 100) = Inr False \<and>
         fst (getTimer other this w) = Inr raw"
proof -
  have c: "js_lt other raw (Fin 0) = Inr False \<and> js_gt other raw (Fin 100) = Inr False"
    using assms(5,6) by (auto simp add: js_lt_def js_gt_def)
  obtain w1 where
    "retryRequest this (''http://'' @ ip (config this) @ ''/mread?{\"1110\":2}'') 3
       (LOG (TimerFetching (''http://'' @ ip (config this) @ ''/mread?{\"1110\":2}'')) w)
     = (Inr (Some resp), w1)"
    using assms(1) by (rule read_returns)
  then have "fst (getTimer other this w) = Inr raw"
    using assms(2,3) c by (simp add: getTimer_def getTimer_try_def data_at_def Let_def)
  with c show ?thesis by simp
qed

text \<open>
  A missing key, \<^verbatim>\<open>null\<close>, the string \<^verbatim>\<open>"50"\<close>, the object \<^verbatim>\<open>{"a":1}\<close> and the empty
  array are returned as they are.
\<close>

theorem getTimer_not_a_number_witness:
  "fst (getTimer no_other scripted_accessory (start [Inr \<lparr>data = Obj Map.empty\<rparr>])) = Inr JUndefined \<and>
   fst (getTimer no_other scripted_accessory (start [Inr (reply ''1110'' JNull)])) = Inr JNull \<and>
   fst (getTimer no_other scripted_accessory (start [Inr (reply ''1110'' (JStr ''50''))]))
     = Inr (JStr ''50'') \<and>
   fst (getTimer no_other scripted_accessory (start [Inr (reply ''1110'' (JObj [(''a'', JInt 1)]))]))
     = Inr (JObj [(''a'', JInt 1)]) \<and>
   fst (getTimer no_other scripted_accessory (start [Inr (reply ''1110'' (JArr []))]))
     = Inr (JArr [])"
proof -
  have r: "fst (retryRequest scripted_accessory
                 (''http://'' @ ip (config scripted_accessory) @ ''/mread?{\"1110\":2}'') 3
                 (start [Inr resp])) = Inr (Some resp)" for resp
    by (simp add: retryRequest_3 scripted_accessory_def start_def)
  have "fst (getTimer no_other scripted_accessory (start [Inr \<lparr>data = Obj Map.empty\<rparr>]))
          = Inr JUndefined"
    using getTimer_not_a_number [OF r, of "\<lparr>data = Obj Map.empty\<rparr>" Map.empty JUndefined no_other]
    by simp
  moreover
  have "fst (getTimer no_other scripted_accessory (start [Inr (reply ''1110'' JNull)])) = Inr JNull"
    using getTimer_not_a_number [OF r, of "reply ''1110'' JNull" "[''1110'' \<mapsto> JNull]" JNull no_other]
    by (simp add: reply_def)
  moreover
  have "StringToNumber no_other ''50'' = Fin 50"
    by (simp add: StringToNumber_def is_digit_def decimal_value_def digit_value_def)
  then have "fst (getTimer no_other scripted_accessory (start [Inr (reply ''1110'' (JStr ''50''))]))
          = Inr (JStr ''50'')"
    using getTimer_not_a_number [OF r, of "reply ''1110'' (JStr ''50'')"
        "[''1110'' \<mapsto> JStr ''50'']" "JStr ''50''" no_other]
    by (simp add: reply_def)
  moreover
  have "fst (getTimer no_other scripted_accessory
               (start [Inr (reply ''1110'' (JObj [(''a'', JInt 1)]))]))
          = Inr (JObj [(''a'', JInt 1)])"
    using getTimer_not_a_number [OF r, of "reply ''1110'' (JObj [(''a'', JInt 1)])"
        "[''1110'' \<mapsto> JObj [(''a'', JInt 1)]]" "JObj [(''a'', JInt 1)]" no_other]
    by (simp add: reply_def)
  moreover
  have "fst (getTimer no_other scripted_accessory (start [Inr (reply ''1110'' (JArr []))]))
          = Inr (JArr [])"
    using getTimer_not_a_number [OF r, of "reply ''1110'' (JArr [])"
        "[''1110'' \<mapsto> JArr []]" "JArr []" no_other]
    by (simp add: reply_def)
  ultimately show ?thesis by simp
qed

end
